theory Spec2Isabelle
  imports Complex_Main "HOL-Library.Char_ord" "HOL-Library.List_Lexorder"
begin

section \<open>Bond extractor: rows by name, ISIN autofill, formatted workbook\<close>

text \<open>
  A shallow embedding of \<^verbatim>\<open>app.py\<close>. The script reads every sheet of an uploaded
  workbook into a pandas DataFrame, collects the distinct names, keeps the rows whose
  name was selected and whose units are positive, fills an ISIN column from a lookup
  table, concatenates the sheets and writes an openpyxl worksheet with number formats and
  column widths.

  The DataFrame and the worksheet are library objects. They are modelled by what the
  script observes of them: a DataFrame is its column labels and its rows of scalars, a
  worksheet is its columns of cells (value and number format) and its column widths.
  The upload widgets and the final serialisation (\<^verbatim>\<open>wb.save\<close>) are outside the model.
\<close>

subsection \<open>Scalars\<close>

text \<open>
  A pandas Timestamp is its offset from the epoch in nanoseconds. A finite float is
  idealised as the rational it denotes: rounding and overflow of IEEE doubles are not
  modelled. The three missing values stay apart, because Python tells them apart:
  \<^verbatim>\<open>None\<close>, the float \<^verbatim>\<open>nan\<close> and pandas' \<^verbatim>\<open>NaT\<close>. pandas fills an empty cell of a
  sheet with \<^verbatim>\<open>nan\<close> (\<^verbatim>\<open>NaT\<close> in a column of timestamps), never with \<^verbatim>\<open>None\<close>. A text is a
  list of characters, one per code point; the characters are the code points below 256.
\<close>

type_synonym timestamp = int

datatype cell =
    PNone
  | NaN
  | NaT
  | PStr string
  | PInt int
  | PFloat rat
  | PBool bool
  | PDate timestamp

datatype error = KeyError string | ValueError string

text \<open>
  A DataFrame is its column labels and its rows. Column labels are scalars too: a header
  cell that holds a number gives a numeric label, which is why the script tests
  \<^verbatim>\<open>isinstance(col, str)\<close>.
\<close>

record dataframe =
  columns :: "cell list"
  rows :: "cell list list"

text \<open>
  The lookup file is taken as read by \<^verbatim>\<open>read_excel\<close>: one entry per row, with the cells
  of the columns A, B, F and H.
\<close>

record lookup_entry =
  nbfc :: cell
  isin :: cell
  issue_date :: cell
  maturity_date :: cell

text \<open>
  What the script takes from pandas and Python and what cannot be written down here in
  full is a parameter of the model: the text of a float and of a timestamp, the lenient
  parsers behind \<^verbatim>\<open>pd.to_numeric\<close> and \<^verbatim>\<open>pd.to_datetime\<close>, and \<^verbatim>\<open>pd.concat\<close>. The
  parsers see the whole column next to the element, since pandas lets the column's dtype
  and the format inferred from its first elements decide. What \<^verbatim>\<open>pd.concat\<close> returns
  follows the dtypes of the frames' columns, and these are decided by the sheets as they
  were read and by whether the dates were coerced, not by the cells that filtering left:
  so \<open>pd_concat\<close> sees the sheets and the lookup table next to the frames. Every theorem
  below holds for every value of the parameter.
\<close>

record pylib =
  float_str :: "rat \<Rightarrow> string"
  timestamp_str :: "timestamp \<Rightarrow> string"
  timestamp_astype_str :: "cell list \<Rightarrow> timestamp \<Rightarrow> string"
  numeric_of :: "cell list \<Rightarrow> cell \<Rightarrow> rat option"
  datetime_of :: "cell list \<Rightarrow> cell \<Rightarrow> timestamp option"
  pd_concat :: "dataframe list \<Rightarrow> lookup_entry list option \<Rightarrow> dataframe list \<Rightarrow> dataframe"

subsection \<open>Strings\<close>

definition digit_char :: "nat \<Rightarrow> char" where
  "digit_char n = char_of (48 + n)"

fun str_nat :: "nat \<Rightarrow> string" where
  "str_nat n = (if n < 10 then [digit_char n] else str_nat (n div 10) @ [digit_char (n mod 10)])"

declare str_nat.simps [simp del]

definition str_int :: "int \<Rightarrow> string" where
  "str_int i = (if i < 0 then CHR ''-'' # str_nat (nat (- i)) else str_nat (nat i))"

text \<open>\<^verbatim>\<open>str(v)\<close> of a scalar.\<close>

definition py_str :: "pylib \<Rightarrow> cell \<Rightarrow> string" where
  "py_str L v =
     (case v of
        PNone \<Rightarrow> ''None''
      | NaN \<Rightarrow> ''nan''
      | NaT \<Rightarrow> ''NaT''
      | PStr s \<Rightarrow> s
      | PInt i \<Rightarrow> str_int i
      | PFloat r \<Rightarrow> float_str L r
      | PBool b \<Rightarrow> (if b then ''True'' else ''False'')
      | PDate d \<Rightarrow> timestamp_str L d)"

text \<open>\<^verbatim>\<open>s.startswith(p)\<close> and \<^verbatim>\<open>sub in s\<close>.\<close>

definition startswith :: "string \<Rightarrow> string \<Rightarrow> bool" where
  "startswith s p = (take (length p) s = p)"

fun contains :: "string \<Rightarrow> string \<Rightarrow> bool" where
  "contains sub [] = (sub = [])"
| "contains sub (c # cs) = (startswith (c # cs) sub \<or> contains sub cs)"

text \<open>
  \<^verbatim>\<open>s.lower()\<close> on the ASCII letters, which is all that the ASCII needles of the script
  can tell, and the whitespace that \<^verbatim>\<open>s.strip()\<close> strips: the characters for which
  \<^verbatim>\<open>str.isspace\<close> holds, the no-break space (160) and the next-line control (133)
  included.
\<close>

definition lower_char :: "char \<Rightarrow> char" where
  "lower_char c =
     (if 65 \<le> (of_char c :: nat) \<and> (of_char c :: nat) \<le> 90
      then char_of ((of_char c :: nat) + 32) else c)"

definition lower :: "string \<Rightarrow> string" where
  "lower s = map lower_char s"

definition is_space :: "char \<Rightarrow> bool" where
  "is_space c = ((of_char c :: nat) \<in> {9, 10, 11, 12, 13, 28, 29, 30, 31, 32, 133, 160})"

definition strip_is_empty :: "string \<Rightarrow> bool" where
  "strip_is_empty s = list_all is_space s"

subsection \<open>DataFrames\<close>


text \<open>\<^verbatim>\<open>name in df.columns\<close> and \<^verbatim>\<open>df.columns.get_loc(name)\<close>.\<close>

definition has_column :: "string \<Rightarrow> dataframe \<Rightarrow> bool" where
  "has_column name df = (PStr name \<in> set (columns df))"

fun get_loc :: "cell \<Rightarrow> cell list \<Rightarrow> nat option" where
  "get_loc name [] = None"
| "get_loc name (c # cs) =
     (if c = name then Some 0 else (case get_loc name cs of None \<Rightarrow> None | Some i \<Rightarrow> Some (Suc i)))"

definition column :: "nat \<Rightarrow> cell list list \<Rightarrow> cell list" where
  "column i rs = map (\<lambda>r. r ! i) rs"

text \<open>\<^verbatim>\<open>df[name]\<close> raises KeyError when no column has the label.\<close>

definition getitem :: "dataframe \<Rightarrow> string \<Rightarrow> error + cell list" where
  "getitem df name =
     (case get_loc (PStr name) (columns df) of
        None \<Rightarrow> Inl (KeyError name)
      | Some i \<Rightarrow> Inr (column i (rows df)))"

text \<open>\<^verbatim>\<open>df[mask]\<close>: the entries whose mask entry is True, in order.\<close>

definition select :: "bool list \<Rightarrow> 'a list \<Rightarrow> 'a list" where
  "select keep xs = map fst (filter snd (zip xs keep))"

text \<open>
  \<^verbatim>\<open>df[name] = series\<close> overwrites the column of that label in place, or appends a new
  column when there is none.
\<close>

definition set_column :: "string \<Rightarrow> cell list \<Rightarrow> dataframe \<Rightarrow> dataframe" where
  "set_column name vals df =
     (case get_loc (PStr name) (columns df) of
        Some i \<Rightarrow> df\<lparr>rows := map (\<lambda>(r, v). r[i := v]) (zip (rows df) vals)\<rparr>
      | None \<Rightarrow> df\<lparr>columns := columns df @ [PStr name],
                   rows := map (\<lambda>(r, v). r @ [v]) (zip (rows df) vals)\<rparr>)"

definition insert_at :: "nat \<Rightarrow> 'a \<Rightarrow> 'a list \<Rightarrow> 'a list" where
  "insert_at i x xs = take i xs @ x # drop i xs"

text \<open>
  \<^verbatim>\<open>df.insert(loc, name, value)\<close> raises ValueError when a column of that label is
  already there (\<^verbatim>\<open>allow_duplicates\<close> is off).
\<close>

definition df_insert :: "nat \<Rightarrow> string \<Rightarrow> cell \<Rightarrow> dataframe \<Rightarrow> error + dataframe" where
  "df_insert loc name v df =
     (if has_column name df
      then Inl (ValueError (''cannot insert '' @ name @ '', already exists''))
      else Inr \<lparr>columns = insert_at loc (PStr name) (columns df),
                rows = map (insert_at loc v) (rows df)\<rparr>)"

text \<open>\<^verbatim>\<open>df.empty\<close>: an axis of length 0.\<close>

definition df_empty :: "dataframe \<Rightarrow> bool" where
  "df_empty df = (rows df = [] \<or> columns df = [])"

definition notna :: "cell \<Rightarrow> bool" where
  "notna v = (v \<noteq> PNone \<and> v \<noteq> NaN \<and> v \<noteq> NaT)"

text \<open>\<^verbatim>\<open>series.astype(str)\<close>, element by element.\<close>

definition astype_str :: "pylib \<Rightarrow> cell list \<Rightarrow> cell \<Rightarrow> string" where
  "astype_str L col v = (case v of PDate d \<Rightarrow> timestamp_astype_str L col d | _ \<Rightarrow> py_str L v)"

text \<open>
  \<^verbatim>\<open>pd.to_numeric(series, errors='coerce')\<close>, element by element: a number is itself,
  a boolean is 1 or 0, a missing value stays missing, and a string or a timestamp is
  whatever the library's parser makes of it (\<open>None\<close> is the coerced \<^verbatim>\<open>nan\<close>).
\<close>

definition to_numeric :: "pylib \<Rightarrow> cell list \<Rightarrow> cell \<Rightarrow> rat option" where
  "to_numeric L col v =
     (case v of
        PNone \<Rightarrow> None
      | NaN \<Rightarrow> None
      | NaT \<Rightarrow> None
      | PInt i \<Rightarrow> Some (of_int i)
      | PFloat r \<Rightarrow> Some r
      | PBool b \<Rightarrow> Some (if b then 1 else 0)
      | _ \<Rightarrow> numeric_of L col v)"

text \<open>\<^verbatim>\<open>series > 0\<close>: a comparison with \<^verbatim>\<open>nan\<close> is False.\<close>

definition gt_zero :: "rat option \<Rightarrow> bool" where
  "gt_zero x = (case x of None \<Rightarrow> False | Some r \<Rightarrow> 0 < r)"

text \<open>
  \<^verbatim>\<open>pd.to_datetime(series, errors='coerce')\<close>: a timestamp is itself, a missing value
  and whatever the parser rejects become \<^verbatim>\<open>NaT\<close>.
\<close>

definition to_datetime_cell :: "pylib \<Rightarrow> cell list \<Rightarrow> cell \<Rightarrow> cell" where
  "to_datetime_cell L col v =
     (case v of
        PDate d \<Rightarrow> PDate d
      | PNone \<Rightarrow> NaT
      | NaN \<Rightarrow> NaT
      | NaT \<Rightarrow> NaT
      | _ \<Rightarrow> (case datetime_of L col v of None \<Rightarrow> NaT | Some d \<Rightarrow> PDate d))"

definition to_datetime :: "pylib \<Rightarrow> cell list \<Rightarrow> cell list" where
  "to_datetime L col = map (to_datetime_cell L col) col"

text \<open>
  \<^verbatim>\<open>series == scalar\<close>, element by element: equal strings, equal timestamps, numbers of
  equal value (a boolean counts as 1 or 0); a missing value equals nothing, itself
  included.
\<close>

definition num_val :: "cell \<Rightarrow> rat option" where
  "num_val v =
     (case v of
        PInt i \<Rightarrow> Some (of_int i)
      | PFloat r \<Rightarrow> Some r
      | PBool b \<Rightarrow> Some (if b then 1 else 0)
      | _ \<Rightarrow> None)"

definition py_eq :: "cell \<Rightarrow> cell \<Rightarrow> bool" where
  "py_eq a b =
     (case a of
        PStr s \<Rightarrow> b = PStr s
      | PDate d \<Rightarrow> b = PDate d
      | _ \<Rightarrow> (case num_val a of None \<Rightarrow> False | Some x \<Rightarrow> num_val b = Some x))"

subsection \<open>Collecting the names (lines 19 to 23)\<close>

text \<open>
  \<^verbatim>\<open>df['Name'].dropna().astype(str).unique()\<close> for one sheet, then the union over the
  sheets in a Python set, then \<^verbatim>\<open>sorted\<close>. The KeyError of a sheet without the column
  is caught nowhere: it ends the run.
\<close>

definition sheet_names :: "pylib \<Rightarrow> dataframe \<Rightarrow> error + string list" where
  "sheet_names L df =
     (case getitem df ''Name'' of
        Inl e \<Rightarrow> Inl e
      | Inr names \<Rightarrow>
          (let kept = filter notna names
           in Inr (remdups (map (astype_str L kept) kept))))"

fun update_names :: "pylib \<Rightarrow> dataframe list \<Rightarrow> string set \<Rightarrow> error + string set" where
  "update_names L [] acc = Inr acc"
| "update_names L (df # dfs) acc =
     (case sheet_names L df of
        Inl e \<Rightarrow> Inl e
      | Inr ns \<Rightarrow> update_names L dfs (acc \<union> set ns))"

definition all_names :: "pylib \<Rightarrow> dataframe list \<Rightarrow> error + string list" where
  "all_names L sheets =
     (case update_names L sheets {} of
        Inl e \<Rightarrow> Inl e
      | Inr s \<Rightarrow> Inr (sorted_list_of_set s))"

subsection \<open>The lookup table (lines 27 to 39)\<close>

text \<open>Lines 38 and 39 coerce the two date columns of the lookup table.\<close>

definition lookup_df :: "pylib \<Rightarrow> lookup_entry list \<Rightarrow> lookup_entry list" where
  "lookup_df L raw =
     (let issue = to_datetime L (map issue_date raw);
          maturity = to_datetime L (map maturity_date raw)
      in map (\<lambda>(e, i, m). e\<lparr>issue_date := i, maturity_date := m\<rparr>) (zip raw (zip issue maturity)))"

subsection \<open>One sheet (lines 45 to 77)\<close>

text \<open>Lines 47 and 48: the two masks, their conjunction, and the selection.\<close>

definition filtered :: "pylib \<Rightarrow> string list \<Rightarrow> dataframe \<Rightarrow> error + dataframe" where
  "filtered L selected_names df =
     (case getitem df ''Name'' of
        Inl e \<Rightarrow> Inl e
      | Inr names \<Rightarrow>
          (case getitem df ''Units'' of
             Inl e \<Rightarrow> Inl e
           | Inr units \<Rightarrow>
               (let m1 = map (\<lambda>v. astype_str L names v \<in> set selected_names) names;
                    m2 = map (\<lambda>v. gt_zero (to_numeric L units v)) units
                in Inr (df\<lparr>rows := select (map (\<lambda>(a, b). a \<and> b) (zip m1 m2)) (rows df)\<rparr>))))"

text \<open>Lines 52 to 54.\<close>

definition droppable :: "cell \<Rightarrow> bool" where
  "droppable col = (case col of PStr s \<Rightarrow> strip_is_empty s \<or> startswith s ''Unnamed'' | _ \<Rightarrow> False)"

definition cols_to_drop :: "dataframe \<Rightarrow> cell list" where
  "cols_to_drop df = filter droppable (columns df)"

definition drop_columns :: "cell list \<Rightarrow> dataframe \<Rightarrow> dataframe" where
  "drop_columns labels df =
     (let keep = map (\<lambda>c. c \<notin> set labels) (columns df)
      in \<lparr>columns = select keep (columns df), rows = map (select keep) (rows df)\<rparr>)"

text \<open>Lines 57 to 59.\<close>

definition insert_isin :: "dataframe \<Rightarrow> error + dataframe" where
  "insert_isin df =
     (case get_loc (PStr ''NBFC'') (columns df) of
        None \<Rightarrow> Inr df
      | Some i \<Rightarrow> df_insert (i + 1) ''ISIN'' (PStr []) df)"

text \<open>
  Lines 67 to 73. \<open>matches\<close> is the mask of lines 69 to 71 at one entry, \<open>find_isin\<close> the
  body of \<^verbatim>\<open>get_isin\<close> on the three values of the row; \<open>get_isin\<close> reads them from the
  row, where \<^verbatim>\<open>row['NBFC']\<close> raises KeyError when the frame has no such column.
\<close>

definition matches :: "lookup_entry \<Rightarrow> cell \<Rightarrow> cell \<Rightarrow> cell \<Rightarrow> bool" where
  "matches e k d1 d2 = (py_eq (nbfc e) k \<and> py_eq (issue_date e) d1 \<and> py_eq (maturity_date e) d2)"

definition find_isin :: "lookup_entry list \<Rightarrow> cell \<Rightarrow> cell \<Rightarrow> cell \<Rightarrow> cell" where
  "find_isin tbl k d1 d2 =
     (case filter (\<lambda>e. matches e k d1 d2) tbl of
        [] \<Rightarrow> PStr []
      | e # _ \<Rightarrow> isin e)"

definition row_get :: "cell list \<Rightarrow> cell list \<Rightarrow> string \<Rightarrow> error + cell" where
  "row_get cols r name =
     (case get_loc (PStr name) cols of None \<Rightarrow> Inl (KeyError name) | Some i \<Rightarrow> Inr (r ! i))"

definition get_isin :: "lookup_entry list \<Rightarrow> cell list \<Rightarrow> cell list \<Rightarrow> error + cell" where
  "get_isin tbl cols r =
     (case row_get cols r ''NBFC'' of
        Inl e \<Rightarrow> Inl e
      | Inr k \<Rightarrow>
          (case row_get cols r ''Issue Date'' of
             Inl e \<Rightarrow> Inl e
           | Inr d1 \<Rightarrow>
               (case row_get cols r ''Maturity Date'' of
                  Inl e \<Rightarrow> Inl e
                | Inr d2 \<Rightarrow> Inr (find_isin tbl k d1 d2))))"

text \<open>\<^verbatim>\<open>df.apply(f, axis=1)\<close>: row by row, the first exception ends it.\<close>

fun apply_rows :: "('a \<Rightarrow> error + 'b) \<Rightarrow> 'a list \<Rightarrow> error + 'b list" where
  "apply_rows f [] = Inr []"
| "apply_rows f (r # rs) =
     (case f r of
        Inl e \<Rightarrow> Inl e
      | Inr v \<Rightarrow> (case apply_rows f rs of Inl e \<Rightarrow> Inl e | Inr vs \<Rightarrow> Inr (v # vs)))"

text \<open>Lines 61 to 75.\<close>

definition enrich :: "pylib \<Rightarrow> lookup_entry list option \<Rightarrow> dataframe \<Rightarrow> error + dataframe" where
  "enrich L lookup df =
     (case lookup of
        None \<Rightarrow> Inr df
      | Some tbl \<Rightarrow>
          if has_column ''Issue Date'' df \<and> has_column ''Maturity Date'' df
          then (case getitem df ''Issue Date'' of
                  Inl e \<Rightarrow> Inl e
                | Inr issue \<Rightarrow>
                    (let df1 = set_column ''Issue Date'' (to_datetime L issue) df
                     in case getitem df1 ''Maturity Date'' of
                          Inl e \<Rightarrow> Inl e
                        | Inr maturity \<Rightarrow>
                            (let df2 = set_column ''Maturity Date'' (to_datetime L maturity) df1
                             in case apply_rows (get_isin tbl (columns df2)) (rows df2) of
                                  Inl e \<Rightarrow> Inl e
                                | Inr ids \<Rightarrow> Inr (set_column ''ISIN'' ids df2))))
          else Inr df)"

text \<open>The body of the loop over the sheets: \<open>None\<close> when nothing was appended.\<close>

definition process_sheet ::
  "pylib \<Rightarrow> lookup_entry list option \<Rightarrow> string list \<Rightarrow> dataframe \<Rightarrow> error + dataframe option" where
  "process_sheet L lookup selected_names df =
     (case filtered L selected_names df of
        Inl e \<Rightarrow> Inl e
      | Inr f \<Rightarrow>
          if df_empty f then Inr None
          else (case insert_isin (drop_columns (cols_to_drop f) f) of
                  Inl e \<Rightarrow> Inl e
                | Inr g \<Rightarrow> (case enrich L lookup g of Inl e \<Rightarrow> Inl e | Inr h \<Rightarrow> Inr (Some h))))"

fun combined_rows ::
  "pylib \<Rightarrow> lookup_entry list option \<Rightarrow> string list \<Rightarrow> dataframe list \<Rightarrow> error + dataframe list" where
  "combined_rows L lookup selected_names [] = Inr []"
| "combined_rows L lookup selected_names (df # dfs) =
     (case process_sheet L lookup selected_names df of
        Inl e \<Rightarrow> Inl e
      | Inr r \<Rightarrow>
          (case combined_rows L lookup selected_names dfs of
             Inl e \<Rightarrow> Inl e
           | Inr fs \<Rightarrow> Inr (case r of None \<Rightarrow> fs | Some f \<Rightarrow> f # fs)))"

subsection \<open>Concatenation (line 80)\<close>

text \<open>
  \<^verbatim>\<open>pd.concat(combined_rows, ignore_index=True)\<close> is the library's: it joins the columns
  of the frames, fills a column that some frame lacks with \<^verbatim>\<open>nan\<close>, or with \<^verbatim>\<open>NaT\<close> when
  it is a column of timestamps, and turns a column of integers that is filled, or that
  meets a column of floats, into floats. Nothing below depends on what it returns.
\<close>

definition final_df ::
  "pylib \<Rightarrow> dataframe list \<Rightarrow> lookup_entry list option \<Rightarrow> dataframe list \<Rightarrow> dataframe" where
  "final_df L sheets lookup frames = pd_concat L sheets lookup frames"

subsection \<open>The worksheet (lines 83 to 163)\<close>

text \<open>
  A worksheet cell is its value and its number format; assigning a named style to a cell
  is seen through the number format the style carries. The worksheet is kept by columns,
  the way both loops of the script walk it: the head of a column is row 1, the header.
  A new cell has the format General, or openpyxl's date-time format when the value is a
  timestamp.
\<close>

record wcell =
  cvalue :: cell
  number_format :: string

record worksheet =
  title :: string
  ws_columns :: "wcell list list"
  column_widths :: "nat list"

definition new_cell :: "cell \<Rightarrow> wcell" where
  "new_cell v =
     \<lparr>cvalue = v,
      number_format = (case v of PDate _ \<Rightarrow> ''yyyy-mm-dd h:mm:ss'' | NaT \<Rightarrow> ''yyyy-mm-dd h:mm:ss''
                        | _ \<Rightarrow> ''General'')\<rparr>"

text \<open>Lines 89 and 90: the header row, then the rows of the frame.\<close>

definition appended :: "dataframe \<Rightarrow> wcell list list" where
  "appended df =
     map (\<lambda>j. new_cell (columns df ! j) # map (\<lambda>r. new_cell (r ! j)) (rows df))
       [0..<length (columns df)]"

definition percentage_style :: string where "percentage_style = ''0.00%''"

definition comma_style :: string where "comma_style = ''#,##0''"

definition date_style :: string where "date_style = ''DD-MMM-YY''"

definition month_year_style :: string where "month_year_style = ''MMM-YY''"

text \<open>
  Lines 117 to 123. \<^verbatim>\<open>isinstance(v, (int, float))\<close> holds of an int, a float (\<^verbatim>\<open>nan\<close>
  too) and a bool; \<^verbatim>\<open>v > 1\<close> is False for a bool and for \<^verbatim>\<open>nan\<close>. The division gives a
  float. The only statement of the \<^verbatim>\<open>try\<close> block that can raise is the division, on an
  int beyond the range of a float (OverflowError, swallowed by the \<^verbatim>\<open>except\<close>, which would
  leave the cell without the style). pandas reads integers as 64-bit numbers, far below
  that range, and floats are idealised here, so the \<^verbatim>\<open>except\<close> branch has no counterpart.
\<close>

definition divided :: "cell \<Rightarrow> cell" where
  "divided v =
     (case v of
        PInt i \<Rightarrow> (if 1 < i then PFloat (of_int i / 100) else v)
      | PFloat r \<Rightarrow> (if 1 < r then PFloat (r / 100) else v)
      | _ \<Rightarrow> v)"

definition interest_cell :: "wcell \<Rightarrow> wcell" where
  "interest_cell c =
     (if cvalue c \<noteq> PNone
      then \<lparr>cvalue = divided (cvalue c), number_format = percentage_style\<rparr>
      else c)"

text \<open>Lines 128 to 130, 137 to 139 and 146 to 148.\<close>

definition styled :: "string \<Rightarrow> wcell \<Rightarrow> wcell" where
  "styled fmt c = (if cvalue c \<noteq> PNone then c\<lparr>number_format := fmt\<rparr> else c)"

text \<open>The inner loops run over the rows 2 to \<^verbatim>\<open>max_row\<close>: every cell but the header.\<close>

definition data_cells :: "(wcell \<Rightarrow> wcell) \<Rightarrow> wcell list \<Rightarrow> wcell list" where
  "data_cells f col = (case col of [] \<Rightarrow> [] | h # ds \<Rightarrow> h # map f ds)"

text \<open>Lines 114 to 150: the chain of tests on the column's name.\<close>

definition format_column :: "pylib \<Rightarrow> cell \<Rightarrow> wcell list \<Rightarrow> wcell list" where
  "format_column L col_name col =
     (let name = py_str L col_name
      in if contains ''Interest'' name then data_cells interest_cell col
         else if contains ''Amount'' name then data_cells (styled comma_style) col
         else if contains ''Date'' name
                 \<and> \<not> list_ex (\<lambda>x. contains x (lower name)) [''issue'', ''maturity'']
              then data_cells (styled date_style) col
         else if list_ex (\<lambda>x. contains x (lower name))
                   [''issue date'', ''maturity date'', ''issue'', ''maturity'']
              then data_cells (styled month_year_style) col
         else col)"

text \<open>Lines 153 to 163.\<close>

definition truthy :: "cell \<Rightarrow> bool" where
  "truthy v =
     (case v of
        PNone \<Rightarrow> False
      | PStr s \<Rightarrow> s \<noteq> []
      | PInt i \<Rightarrow> i \<noteq> 0
      | PFloat r \<Rightarrow> r \<noteq> 0
      | PBool b \<Rightarrow> b
      | _ \<Rightarrow> True)"

fun max_length :: "pylib \<Rightarrow> wcell list \<Rightarrow> nat \<Rightarrow> nat" where
  "max_length L [] m = m"
| "max_length L (c # cs) m =
     max_length L cs
       (if truthy (cvalue c) \<and> m < length (py_str L (cvalue c))
        then length (py_str L (cvalue c)) else m)"

definition adjusted_width :: "pylib \<Rightarrow> wcell list \<Rightarrow> nat" where
  "adjusted_width L col = min (max_length L col 0 + 2) 50"

definition render :: "pylib \<Rightarrow> dataframe \<Rightarrow> worksheet" where
  "render L df =
     (let cols = map (\<lambda>(n, c). format_column L n c) (zip (columns df) (appended df))
      in \<lparr>title = ''Extracted'', ws_columns = cols, column_widths = map (adjusted_width L) cols\<rparr>)"

subsection \<open>The run (lines 13 to 175)\<close>

text \<open>
  What the page shows after the widgets: nothing more, the notice of \<^verbatim>\<open>st.info\<close>, or
  the download button with the workbook. An exception that nothing catches ends the run.
\<close>

datatype outcome = Idle | Info string | Download worksheet

definition run ::
  "pylib \<Rightarrow> dataframe list \<Rightarrow> lookup_entry list option \<Rightarrow> string list \<Rightarrow> error + outcome" where
  "run L sheets lookup_file selected_names =
     (case all_names L sheets of
        Inl e \<Rightarrow> Inl e
      | Inr names \<Rightarrow>
          (let lookup = map_option (lookup_df L) lookup_file
           in if selected_names = [] then Inr Idle
              else (case combined_rows L lookup selected_names sheets of
                      Inl e \<Rightarrow> Inl e
                    | Inr [] \<Rightarrow> Inr (Info ''No matching rows found with positive Units.'')
                    | Inr (f # fs) \<Rightarrow>
                        Inr (Download (render L (final_df L sheets lookup (f # fs)))))))"

subsection \<open>Vocabulary of the statements\<close>

text \<open>The strings one sheet contributes: its non-missing \<^verbatim>\<open>Name\<close> values, cast to text.\<close>

definition name_strings :: "pylib \<Rightarrow> dataframe \<Rightarrow> string set" where
  "name_strings L df =
     (case getitem df ''Name'' of
        Inl e \<Rightarrow> {}
      | Inr names \<Rightarrow> (let kept = filter notna names in astype_str L kept ` set kept))"

subsection \<open>Example data\<close>

text \<open>
  One value of the library parameter, to run the model on examples: every float prints
  as \<^verbatim>\<open>0.0\<close>, every timestamp as the epoch, the parsers reject whatever they are
  asked, and the concatenation of a single frame is that frame (the empty frame stands
  for every other concatenation). The examples hold no float and no text that pandas
  would read as a number or a date, and they concatenate one frame, so they come out as
  they do under the real library.
\<close>

definition stub_lib :: pylib where
  "stub_lib =
     \<lparr>float_str = (\<lambda>_. ''0.0''),
      timestamp_str = (\<lambda>_. ''1970-01-01 00:00:00''),
      timestamp_astype_str = (\<lambda>_ _. ''1970-01-01''),
      numeric_of = (\<lambda>_ _. None),
      datetime_of = (\<lambda>_ _. None),
      pd_concat = (\<lambda>_ _ frames. case frames of [f] \<Rightarrow> f | _ \<Rightarrow> \<lparr>columns = [], rows = []\<rparr>)\<rparr>"

definition sheet1 :: dataframe where
  "sheet1 =
     \<lparr>columns = [PStr ''Name'', PStr ''Units'', PStr ''NBFC''],
      rows = [[PStr ''B'', PInt 1, PStr ''X''],
              [NaN, PInt 3, PStr ''Y''],
              [PStr ''A'', PInt 2, PStr ''X''],
              [PStr ''A'', PInt 0, PStr ''X''],
              [PStr ''A'', PInt (- 5), PStr ''X''],
              [PStr ''A'', PStr ''n.a.'', PStr ''X'']]\<rparr>"

definition sheet2 :: dataframe where
  "sheet2 =
     \<lparr>columns = [PStr ''Units'', PStr ''Name''],
      rows = [[PInt 1, PInt 12], [PInt 2, PStr ''A'']]\<rparr>"

definition sheet3 :: dataframe where
  "sheet3 = \<lparr>columns = [PStr ''Units'', PStr ''Entity''], rows = [[PInt 1, PStr ''A'']]\<rparr>"

definition table1 :: "lookup_entry list" where
  "table1 =
     [\<lparr>nbfc = PStr ''X'', isin = PStr ''INE001'', issue_date = PDate 1, maturity_date = PDate 2\<rparr>,
      \<lparr>nbfc = PStr ''X'', isin = PStr ''INE002'', issue_date = PDate 1, maturity_date = PDate 2\<rparr>,
      \<lparr>nbfc = PStr ''Y'', isin = PStr ''INE003'', issue_date = PDate 1, maturity_date = NaT\<rparr>]"



definition book1 :: dataframe where
  "book1 =
     \<lparr>columns = [PStr ''Interest Rate'', PStr ''Total Amount'', PStr ''Maturity Date'',
                 PStr ''Trade Date'', PStr ''Trade date'', PStr ''OK''],
      rows = [[PInt 5, PInt 12345, PDate 3, PDate 4, PDate 5, PBool False]]\<rparr>"

definition sheet4 :: dataframe where
  "sheet4 =
     \<lparr>columns = [PStr ''Name'', PStr ''Units'', PStr ''NBFC'', PStr ''ISIN''],
      rows = [[PStr ''A'', PInt 1, PStr ''X'', PStr ''INE009'']]\<rparr>"

section \<open>Properties\<close>

subsection \<open>Auxiliary facts\<close>

lemma get_loc_None_iff: "(get_loc n cs = None) = (n \<notin> set cs)"
  by (induction cs) (auto split: option.splits)


lemma has_column_get_loc: "has_column name df = (\<exists>i. get_loc (PStr name) (columns df) = Some i)"
  using get_loc_None_iff[of "PStr name" "columns df"] by (auto simp: has_column_def)

lemma sheet_names_Inr:
  "has_column ''Name'' df \<Longrightarrow> \<exists>ns. sheet_names L df = Inr ns \<and> set ns = name_strings L df"
  by (auto simp: sheet_names_def name_strings_def getitem_def Let_def has_column_get_loc
      split: option.splits)

lemma sheet_names_Inl:
  "\<not> has_column ''Name'' df \<Longrightarrow> sheet_names L df = Inl (KeyError ''Name'')"
  by (simp add: sheet_names_def getitem_def has_column_def get_loc_None_iff[symmetric])

lemma update_names_eq:
  "update_names L sheets acc =
     (if list_all (has_column ''Name'') sheets
      then Inr (acc \<union> (\<Union>df \<in> set sheets. name_strings L df))
      else Inl (KeyError ''Name''))"
proof (induction sheets arbitrary: acc)
  case Nil
  then show ?case by simp
next
  case (Cons df dfs)
  show ?case
  proof (cases "has_column ''Name'' df")
    case True
    from sheet_names_Inr[OF True, of L] obtain ns where
      "sheet_names L df = Inr ns" "set ns = name_strings L df" by blast
    with True Cons.IH show ?thesis by (auto simp: Un_assoc)
  next
    case False
    with sheet_names_Inl[OF False, of L] show ?thesis by simp
  qed
qed

lemma finite_name_strings: "finite (name_strings L df)"
  by (simp add: name_strings_def Let_def split: sum.splits)

lemma select_map: "select (map f xs) xs = filter f xs"
  unfolding select_def by (induction xs) auto

lemma masks_zip:
  "map (\<lambda>(a, b). a \<and> b) (zip (map f (column i rs)) (map g (column j rs)))
     = map (\<lambda>r. f (r ! i) \<and> g (r ! j)) rs"
  unfolding column_def by (induction rs) auto

lemma gt_zero_iff: "gt_zero x = (\<exists>r. x = Some r \<and> 0 < r)"
  by (cases x) (auto simp: gt_zero_def)

subsection \<open>C1: the row filter\<close>

text \<open>
  C1. Let \<open>i\<close> be the position of the \<^verbatim>\<open>Name\<close> column of a sheet and \<open>j\<close> that of its
  \<^verbatim>\<open>Units\<close> column. The filter of lines 47 and 48 raises nothing and returns the sheet
  with exactly those rows, in their order and with their multiplicity, whose \<^verbatim>\<open>Name\<close>
  value cast to text is one of the selected names and whose \<^verbatim>\<open>Units\<close> value coerces to a
  number strictly greater than 0. A \<^verbatim>\<open>Units\<close> value that coerces to no number, to 0 or to
  a negative number fails the second conjunct, so its row is left out.
\<close>

theorem filtered_rows:
  assumes "get_loc (PStr ''Name'') (columns df) = Some i"
    and "get_loc (PStr ''Units'') (columns df) = Some j"
  shows "filtered L selected_names df =
     Inr (df\<lparr>rows :=
        filter (\<lambda>r. astype_str L (column i (rows df)) (r ! i) \<in> set selected_names
                   \<and> (\<exists>x. to_numeric L (column j (rows df)) (r ! j) = Some x \<and> 0 < x))
          (rows df)\<rparr>)"
  using assms
  by (simp add: filtered_def getitem_def Let_def masks_zip select_map gt_zero_iff)

text \<open>
  On \<open>sheet1\<close> with \<^verbatim>\<open>A\<close> selected: of the four rows named \<^verbatim>\<open>A\<close>, the one with 2 units
  stays; those with 0 units, with -5 units and with the text \<^verbatim>\<open>n.a.\<close> go.
\<close>

theorem filtered_rows_witness:
  "get_loc (PStr ''Name'') (columns sheet1) = Some 0
   \<and> get_loc (PStr ''Units'') (columns sheet1) = Some 1
   \<and> filtered stub_lib [''A''] sheet1 = Inr (sheet1\<lparr>rows := [[PStr ''A'', PInt 2, PStr ''X'']]\<rparr>)"
proof -
  have n: "get_loc (PStr ''Name'') (columns sheet1) = Some 0"
    and u: "get_loc (PStr ''Units'') (columns sheet1) = Some 1"
    by (simp_all add: sheet1_def)
  have "filtered stub_lib [''A''] sheet1 = Inr (sheet1\<lparr>rows := [[PStr ''A'', PInt 2, PStr ''X'']]\<rparr>)"
    unfolding filtered_rows[OF n u]
    by (simp add: sheet1_def column_def astype_str_def py_str_def to_numeric_def stub_lib_def)
  with n u show ?thesis by simp
qed

subsection \<open>C8: the collected names\<close>

text \<open>
  C8. When every sheet has a \<^verbatim>\<open>Name\<close> column, the name collection of lines 19 to 23
  returns a list that is sorted in the lexicographic order of strings (characters by
  their code), has no duplicates, and has as elements exactly the texts of the non-missing
  \<^verbatim>\<open>Name\<close> values of all sheets.
\<close>

theorem all_names_sorted_set:
  assumes "list_all (has_column ''Name'') sheets"
  shows "\<exists>ns. all_names L sheets = Inr ns \<and> sorted ns \<and> distinct ns
           \<and> set ns = (\<Union>df \<in> set sheets. name_strings L df)"
proof -
  have fin: "finite (\<Union>df \<in> set sheets. name_strings L df)"
    by (simp add: finite_name_strings)
  from assms have
    "all_names L sheets = Inr (sorted_list_of_set (\<Union>df \<in> set sheets. name_strings L df))"
    by (simp add: all_names_def update_names_eq)
  with fin show ?thesis by simp
qed

theorem all_names_sorted_set_witness:
  "list_all (has_column ''Name'') [sheet1, sheet2]
   \<and> (\<exists>ns. all_names stub_lib [sheet1, sheet2] = Inr ns \<and> sorted ns \<and> distinct ns
          \<and> set ns = {''12'', ''A'', ''B''})"
proof -
  have h: "list_all (has_column ''Name'') [sheet1, sheet2]"
    by (simp add: has_column_def sheet1_def sheet2_def)
  have s: "(\<Union>df \<in> set [sheet1, sheet2]. name_strings stub_lib df) = {''12'', ''A'', ''B''}"
    by code_simp
  from all_names_sorted_set[OF h, of stub_lib] s h show ?thesis by simp
qed

subsection \<open>C9: a sheet without a name column\<close>

text \<open>
  C9. If some sheet has no \<^verbatim>\<open>Name\<close> column, the name collection raises
  \<^verbatim>\<open>KeyError('Name')\<close>, and so does the whole run, whatever the lookup file and the
  selection: the sheet is not skipped and no name is made up. The collection returns a list
  exactly when every sheet has the column.
\<close>

theorem all_names_KeyError:
  "(\<not> list_all (has_column ''Name'') sheets \<longrightarrow>
      all_names L sheets = Inl (KeyError ''Name'')
      \<and> run L sheets lookup_file selected_names = Inl (KeyError ''Name''))
   \<and> ((\<exists>ns. all_names L sheets = Inr ns) = list_all (has_column ''Name'') sheets)"
  by (simp add: run_def all_names_def update_names_eq)

theorem all_names_KeyError_witness:
  "\<not> list_all (has_column ''Name'') [sheet1, sheet3]
   \<and> all_names stub_lib [sheet1, sheet3] = Inl (KeyError ''Name'')
   \<and> run stub_lib [sheet1, sheet3] None [''A''] = Inl (KeyError ''Name'')"
proof -
  have h: "\<not> list_all (has_column ''Name'') [sheet1, sheet3]"
    by (simp add: has_column_def sheet3_def)
  from all_names_KeyError[of "[sheet1, sheet3]" stub_lib None "[''A'']"] h show ?thesis by blast
qed

subsection \<open>C2: the lookup\<close>

lemma py_eq_refl: "py_eq a a = notna a"
  by (cases a) (simp_all add: py_eq_def num_val_def notna_def)

lemma py_eq_notna: "py_eq a b \<Longrightarrow> notna a \<and> notna b"
  by (cases a; cases b) (simp_all add: py_eq_def num_val_def notna_def)

lemma py_eq_PStr: "py_eq a (PStr s) = (a = PStr s)"
  by (cases a) (auto simp add: py_eq_def num_val_def)

lemma py_eq_PDate: "py_eq a (PDate d) = (a = PDate d)"
  by (cases a) (auto simp add: py_eq_def num_val_def)

lemma filter_first:
  "i < length xs \<Longrightarrow> P (xs ! i) \<Longrightarrow> \<forall>j<i. \<not> P (xs ! j) \<Longrightarrow> \<exists>ys. filter P xs = xs ! i # ys"
proof (induction xs arbitrary: i)
  case Nil
  then show ?case by simp
next
  case (Cons x xs)
  show ?case
  proof (cases i)
    case 0
    with Cons.prems show ?thesis by simp
  next
    case (Suc k)
    with Cons.prems have "\<not> P x" by auto
    moreover from Suc Cons.prems have "k < length xs" "P (xs ! k)" "\<forall>j<k. \<not> P (xs ! j)"
      by auto
    from Cons.IH[OF this] obtain ys where "filter P xs = xs ! k # ys" by blast
    ultimately show ?thesis using Suc by simp
  qed
qed

lemma find_isin_at:
  assumes "i < length tbl" "matches (tbl ! i) k d1 d2" "\<forall>j<i. \<not> matches (tbl ! j) k d1 d2"
  shows "find_isin tbl k d1 d2 = isin (tbl ! i)"
proof -
  from filter_first[of i tbl "\<lambda>e. matches e k d1 d2", OF assms]
  obtain ys where "filter (\<lambda>e. matches e k d1 d2) tbl = tbl ! i # ys" by blast
  then show ?thesis by (simp add: find_isin_def)
qed

lemma find_isin_none:
  assumes "\<forall>e\<in>set tbl. \<not> matches e k d1 d2"
  shows "find_isin tbl k d1 d2 = PStr []"
proof -
  from assms have "filter (\<lambda>e. matches e k d1 d2) tbl = []" by (simp add: filter_empty_conv)
  then show ?thesis by (simp add: find_isin_def)
qed

lemma matches_notna: "matches e k d1 d2 \<Longrightarrow> notna (issue_date e) \<and> notna (maturity_date e) \<and> notna d1 \<and> notna d2"
  by (auto simp: matches_def dest: py_eq_notna)

text \<open>
  C2, as amended. \<open>find_isin\<close> is the lookup of lines 68 to 73 on a key and two dates.
  It returns the identifier of the first entry, in table order, whose three fields equal
  the query. It returns the empty string when no entry does, hence when a date of the
  query is missing, and an entry with a missing date is never the one found. Looking up
  the fields of an entry of the table gives that entry's identifier when its key and dates
  are not missing and no earlier entry carries the same three fields. On a text key and two
  timestamps, equality is equality of the three fields.
\<close>

theorem find_isin_first_match:
  "(\<forall>i<length tbl. matches (tbl ! i) k d1 d2 \<and> (\<forall>j<i. \<not> matches (tbl ! j) k d1 d2)
        \<longrightarrow> find_isin tbl k d1 d2 = isin (tbl ! i))
   \<and> ((\<forall>e\<in>set tbl. \<not> matches e k d1 d2) \<longrightarrow> find_isin tbl k d1 d2 = PStr [])
   \<and> (\<not> notna d1 \<or> \<not> notna d2 \<longrightarrow> find_isin tbl k d1 d2 = PStr [])
   \<and> (\<forall>e\<in>set tbl. \<not> notna (issue_date e) \<or> \<not> notna (maturity_date e) \<longrightarrow> \<not> matches e k d1 d2)
   \<and> (\<forall>i<length tbl. notna (nbfc (tbl ! i)) \<and> notna (issue_date (tbl ! i)) \<and> notna (maturity_date (tbl ! i))
        \<and> (\<forall>j<i. \<not> matches (tbl ! j) (nbfc (tbl ! i)) (issue_date (tbl ! i)) (maturity_date (tbl ! i)))
        \<longrightarrow> find_isin tbl (nbfc (tbl ! i)) (issue_date (tbl ! i)) (maturity_date (tbl ! i)) = isin (tbl ! i))
   \<and> (\<forall>e s a b. matches e (PStr s) (PDate a) (PDate b)
        = (nbfc e = PStr s \<and> issue_date e = PDate a \<and> maturity_date e = PDate b))"
proof (intro conjI allI impI ballI)
  fix i assume "i < length tbl"
    "matches (tbl ! i) k d1 d2 \<and> (\<forall>j<i. \<not> matches (tbl ! j) k d1 d2)"
  then show "find_isin tbl k d1 d2 = isin (tbl ! i)" by (simp add: find_isin_at)
next
  assume "\<forall>e\<in>set tbl. \<not> matches e k d1 d2"
  then show "find_isin tbl k d1 d2 = PStr []" by (rule find_isin_none)
next
  assume "\<not> notna d1 \<or> \<not> notna d2"
  then have "\<forall>e\<in>set tbl. \<not> matches e k d1 d2" using matches_notna by blast
  then show "find_isin tbl k d1 d2 = PStr []" by (rule find_isin_none)
next
  fix e assume "e \<in> set tbl" "\<not> notna (issue_date e) \<or> \<not> notna (maturity_date e)"
  then show "\<not> matches e k d1 d2" using matches_notna by blast
next
  fix i assume i: "i < length tbl"
    and h: "notna (nbfc (tbl ! i)) \<and> notna (issue_date (tbl ! i)) \<and> notna (maturity_date (tbl ! i))
        \<and> (\<forall>j<i. \<not> matches (tbl ! j) (nbfc (tbl ! i)) (issue_date (tbl ! i)) (maturity_date (tbl ! i)))"
  then have "matches (tbl ! i) (nbfc (tbl ! i)) (issue_date (tbl ! i)) (maturity_date (tbl ! i))"
    by (simp add: matches_def py_eq_refl)
  with i h show "find_isin tbl (nbfc (tbl ! i)) (issue_date (tbl ! i)) (maturity_date (tbl ! i)) = isin (tbl ! i)"
    by (simp add: find_isin_at)
next
  fix e s a b
  show "matches e (PStr s) (PDate a) (PDate b)
        = (nbfc e = PStr s \<and> issue_date e = PDate a \<and> maturity_date e = PDate b)"
    by (simp add: matches_def py_eq_PStr py_eq_PDate)
qed

text \<open>
  On \<open>table1\<close>: the key \<^verbatim>\<open>X\<close> with both dates finds the first of the two entries that
  carry them; a missing maturity date finds nothing, on the side of the query and on the
  side of the entry; an unknown key finds nothing.
\<close>

theorem find_isin_first_match_witness:
  "find_isin table1 (PStr ''X'') (PDate 1) (PDate 2) = PStr ''INE001''
   \<and> find_isin table1 (PStr ''X'') (PDate 1) NaT = PStr []
   \<and> find_isin table1 (PStr ''Y'') (PDate 1) NaT = PStr []
   \<and> find_isin table1 (PStr ''Z'') (PDate 1) (PDate 2) = PStr []"
proof -
  note t = find_isin_first_match[of table1]
  have m0: "matches (table1 ! 0) (PStr ''X'') (PDate 1) (PDate 2)"
    by (simp add: table1_def matches_def py_eq_def)
  have len: "0 < length table1" by (simp add: table1_def)
  from t[of "PStr ''X''" "PDate 1" "PDate 2"]
  have "\<forall>i<length table1. matches (table1 ! i) (PStr ''X'') (PDate 1) (PDate 2)
          \<and> (\<forall>j<i. \<not> matches (table1 ! j) (PStr ''X'') (PDate 1) (PDate 2))
        \<longrightarrow> find_isin table1 (PStr ''X'') (PDate 1) (PDate 2) = isin (table1 ! i)"
    by (rule conjunct1)
  with len m0 have "find_isin table1 (PStr ''X'') (PDate 1) (PDate 2) = isin (table1 ! 0)"
    by simp
  moreover have "isin (table1 ! 0) = PStr ''INE001''" by (simp add: table1_def)
  ultimately have a: "find_isin table1 (PStr ''X'') (PDate 1) (PDate 2) = PStr ''INE001''"
    by simp
  have b: "find_isin table1 (PStr ''X'') (PDate 1) NaT = PStr []"
    using t[of "PStr ''X''" "PDate 1" NaT] by (simp add: notna_def)
  have c: "find_isin table1 (PStr ''Y'') (PDate 1) NaT = PStr []"
    using t[of "PStr ''Y''" "PDate 1" NaT] by (simp add: notna_def)
  have "\<forall>e\<in>set table1. \<not> matches e (PStr ''Z'') (PDate 1) (PDate 2)"
    by (simp add: table1_def matches_def py_eq_def)
  then have d: "find_isin table1 (PStr ''Z'') (PDate 1) (PDate 2) = PStr []"
    using t[of "PStr ''Z''" "PDate 1" "PDate 2"] by blast
  from a b c d show ?thesis by simp
qed

text \<open>
  C2 as stated fails: the second entry of \<open>table1\<close> is in the table with both dates, and
  looking up its own key and dates returns the identifier of the first entry, not its own.
\<close>

theorem find_isin_roundtrip_counterexample:
  "table1 ! 1 \<in> set table1
   \<and> notna (issue_date (table1 ! 1)) \<and> notna (maturity_date (table1 ! 1))
   \<and> find_isin table1 (nbfc (table1 ! 1)) (issue_date (table1 ! 1)) (maturity_date (table1 ! 1))
       \<noteq> isin (table1 ! 1)"
  by (simp add: table1_def notna_def find_isin_def matches_def py_eq_def)


subsection \<open>C3: what the enrichment writes\<close>










lemma to_datetime_cell_not_text: "to_datetime_cell L col (PStr s) \<noteq> PStr s"
  by (simp add: to_datetime_cell_def split: option.splits)





subsection \<open>The rendered worksheet\<close>

lemma length_appended: "length (appended df) = length (columns df)"
  by (simp add: appended_def)

lemma ws_columns_nth:
  assumes "j < length (columns df)"
  shows "ws_columns (render L df) ! j =
     format_column L (columns df ! j)
       (new_cell (columns df ! j) # map (\<lambda>r. new_cell (r ! j)) (rows df))"
  using assms by (simp add: render_def Let_def length_appended appended_def)

lemma column_widths_nth:
  assumes "j < length (columns df)"
  shows "column_widths (render L df) ! j = adjusted_width L (ws_columns (render L df) ! j)"
  using assms by (simp add: render_def Let_def length_appended)

lemma data_cells_nth:
  "n < length ds \<Longrightarrow> data_cells f (h # ds) ! Suc n = f (ds ! n)"
  by (simp add: data_cells_def)

lemma startswith_append: "startswith s (a @ b) \<Longrightarrow> startswith s a"
  unfolding startswith_def
  by (metis append_eq_conv_conj append_take_drop_id append.assoc)

lemma contains_append: "contains (a @ b) s \<Longrightarrow> contains a s"
  by (induction s) (auto dest: startswith_append)

lemma issue_date_issue: "contains ''issue date'' s \<Longrightarrow> contains ''issue'' s"
  using contains_append[of "''issue''" "'' date''" s] by simp

lemma maturity_date_maturity: "contains ''maturity date'' s \<Longrightarrow> contains ''maturity'' s"
  using contains_append[of "''maturity''" "'' date''" s] by simp

text \<open>The cell of row \<open>n + 2\<close> in column \<open>j + 1\<close> of the worksheet, by the chain of tests.\<close>

lemma rendered_cell:
  assumes j: "j < length (columns df)" and n: "n < length (rows df)"
  shows "ws_columns (render L df) ! j ! Suc n =
     (let name = py_str L (columns df ! j); c = new_cell (rows df ! n ! j)
      in if contains ''Interest'' name then interest_cell c
         else if contains ''Amount'' name then styled comma_style c
         else if contains ''Date'' name
                 \<and> \<not> (contains ''issue'' (lower name) \<or> contains ''maturity'' (lower name))
              then styled date_style c
         else if contains ''issue'' (lower name) \<or> contains ''maturity'' (lower name)
              then styled month_year_style c
         else c)"
  using n issue_date_issue[of "lower (py_str L (columns df ! j))"]
    maturity_date_maturity[of "lower (py_str L (columns df ! j))"]
  by (auto simp: ws_columns_nth[OF j] format_column_def Let_def data_cells_nth)

lemma book1_sizes:
  "length (columns book1) = 6" "length (rows book1) = 1"
  by (simp_all add: book1_def)

lemma book1_names:
  "py_str L (columns book1 ! 0) = ''Interest Rate''"
  "py_str L (columns book1 ! 2) = ''Maturity Date''"
  "py_str L (columns book1 ! 3) = ''Trade Date''"
  "py_str L (columns book1 ! 4) = ''Trade date''"
  "py_str L (columns book1 ! 5) = ''OK''"
  by (simp_all add: book1_def py_str_def)

lemma book1_cells:
  "rows book1 ! 0 ! 0 = PInt 5"
  "rows book1 ! 0 ! 2 = PDate 3"
  "rows book1 ! 0 ! 3 = PDate 4"
  "rows book1 ! 0 ! 4 = PDate 5"
  "rows book1 ! 0 ! 5 = PBool False"
  by (simp_all add: book1_def)

lemma lower_examples:
  "lower ''Maturity Date'' = ''maturity date''"
  "lower ''Trade Date'' = ''trade date''"
  "lower ''Trade date'' = ''trade date''"
  "lower ''OK'' = ''ok''"
  by code_simp+

subsection \<open>C4: interest columns\<close>

text \<open>
  C4. In the rendered worksheet, take a column whose name contains \<^verbatim>\<open>Interest\<close> and any
  of its data cells. If the value written from the table is not \<^verbatim>\<open>None\<close>, the cell has
  the number format \<^verbatim>\<open>0.00%\<close>. If the value is an int or a float greater than 1, the
  cell stores it divided by 100; every other value is stored as it was.
\<close>

theorem interest_column:
  assumes j: "j < length (columns df)"
    and name: "contains ''Interest'' (py_str L (columns df ! j))"
    and n: "n < length (rows df)"
  shows "(rows df ! n ! j \<noteq> PNone \<longrightarrow>
            number_format (ws_columns (render L df) ! j ! Suc n) = ''0.00%'')
    \<and> cvalue (ws_columns (render L df) ! j ! Suc n) =
        (case rows df ! n ! j of
           PInt i \<Rightarrow> if 1 < i then PFloat (of_int i / 100) else PInt i
         | PFloat r \<Rightarrow> if 1 < r then PFloat (r / 100) else PFloat r
         | v \<Rightarrow> v)"
proof -
  have "ws_columns (render L df) ! j ! Suc n = interest_cell (new_cell (rows df ! n ! j))"
    using name by (simp add: rendered_cell[OF j n] Let_def)
  then show ?thesis
    by (simp add: interest_cell_def new_cell_def divided_def percentage_style_def split: cell.splits)
qed

text \<open>
  In \<open>book1\<close> the column \<^verbatim>\<open>Interest Rate\<close> holds 5: the cell stores 5/100 in the
  percentage format.
\<close>

theorem interest_column_witness:
  "0 < length (columns book1) \<and> contains ''Interest'' (py_str stub_lib (columns book1 ! 0))
   \<and> 0 < length (rows book1) \<and> rows book1 ! 0 ! 0 = PInt 5
   \<and> ws_columns (render stub_lib book1) ! 0 ! Suc 0
       = \<lparr>cvalue = PFloat (5 / 100), number_format = ''0.00%''\<rparr>"
proof -
  have j: "0 < length (columns book1)" and n: "0 < length (rows book1)"
    by (simp_all add: book1_sizes)
  have name: "contains ''Interest'' (py_str stub_lib (columns book1 ! 0))"
    by (simp add: book1_names startswith_def)
  from interest_column[OF j name n]
  have "number_format (ws_columns (render stub_lib book1) ! 0 ! Suc 0) = ''0.00%''"
    and "cvalue (ws_columns (render stub_lib book1) ! 0 ! Suc 0) = PFloat (5 / 100)"
    by (simp_all add: book1_cells)
  then have "ws_columns (render stub_lib book1) ! 0 ! Suc 0
      = \<lparr>cvalue = PFloat (5 / 100), number_format = ''0.00%''\<rparr>"
    by (cases "ws_columns (render stub_lib book1) ! 0 ! Suc 0") simp
  with j n name show ?thesis by (simp add: book1_cells)
qed

subsection \<open>C6: date columns\<close>

text \<open>
  C6, as amended. Take a column whose name contains neither \<^verbatim>\<open>Interest\<close> nor
  \<^verbatim>\<open>Amount\<close>, so that no earlier rule applies, and a data cell of it whose value is not
  \<^verbatim>\<open>None\<close>. The value is stored as it was. If the lower-cased name contains \<^verbatim>\<open>issue\<close> or
  \<^verbatim>\<open>maturity\<close>, the format is \<^verbatim>\<open>MMM-YY\<close>. Otherwise, if the name contains \<^verbatim>\<open>Date\<close>
  spelled exactly so (the test is case-sensitive), the format is \<^verbatim>\<open>DD-MMM-YY\<close>. Otherwise
  the cell keeps the format it was created with. A cell whose value is \<^verbatim>\<open>None\<close> keeps the
  format General.
\<close>

theorem date_columns:
  assumes j: "j < length (columns df)" and n: "n < length (rows df)"
    and name: "name = py_str L (columns df ! j)"
    and early: "\<not> contains ''Interest'' name" "\<not> contains ''Amount'' name"
    and c: "c = ws_columns (render L df) ! j ! Suc n"
  shows "cvalue c = rows df ! n ! j
    \<and> number_format c =
        (if rows df ! n ! j = PNone then ''General''
         else if contains ''issue'' (lower name) \<or> contains ''maturity'' (lower name) then ''MMM-YY''
         else if contains ''Date'' name then ''DD-MMM-YY''
         else number_format (new_cell (rows df ! n ! j)))"
  using early unfolding c name
  by (auto simp: rendered_cell[OF j n] Let_def styled_def new_cell_def date_style_def
      month_year_style_def)

text \<open>
  In \<open>book1\<close>: \<^verbatim>\<open>Trade Date\<close> gets day-month-year, \<^verbatim>\<open>Maturity Date\<close> gets month-year.
\<close>

theorem date_columns_witness:
  "number_format (ws_columns (render stub_lib book1) ! 3 ! Suc 0) = ''DD-MMM-YY''
   \<and> number_format (ws_columns (render stub_lib book1) ! 2 ! Suc 0) = ''MMM-YY''
   \<and> cvalue (ws_columns (render stub_lib book1) ! 3 ! Suc 0) = PDate 4"
proof -
  have n: "0 < length (rows book1)" and j3: "3 < length (columns book1)"
    and j2: "2 < length (columns book1)"
    by (simp_all add: book1_sizes)
  have e3: "\<not> contains ''Interest'' ''Trade Date''" "\<not> contains ''Amount'' ''Trade Date''"
    and e2: "\<not> contains ''Interest'' ''Maturity Date''" "\<not> contains ''Amount'' ''Maturity Date''"
    by (simp_all add: startswith_def)
  have d3: "contains ''Date'' ''Trade Date''" "\<not> contains ''issue'' ''trade date''"
    "\<not> contains ''maturity'' ''trade date''" and d2: "contains ''maturity'' ''maturity date''"
    by (simp_all add: startswith_def)
  from date_columns[OF j3 n book1_names(3)[of stub_lib, symmetric] e3 refl] d3
  have a: "number_format (ws_columns (render stub_lib book1) ! 3 ! Suc 0) = ''DD-MMM-YY''"
    and c: "cvalue (ws_columns (render stub_lib book1) ! 3 ! Suc 0) = PDate 4"
    by (simp_all add: book1_cells lower_examples)
  from date_columns[OF j2 n book1_names(2)[of stub_lib, symmetric] e2 refl] d2
  have b: "number_format (ws_columns (render stub_lib book1) ! 2 ! Suc 0) = ''MMM-YY''"
    by (simp add: book1_cells lower_examples)
  from a b c show ?thesis by simp
qed

text \<open>
  C6 as stated fails: the name \<^verbatim>\<open>Trade date\<close> contains \<^verbatim>\<open>date\<close> once case is ignored and
  none of \<^verbatim>\<open>issue\<close>, \<^verbatim>\<open>maturity\<close>, \<^verbatim>\<open>Interest\<close>, \<^verbatim>\<open>Amount\<close>; its cell holds a
  timestamp and keeps the format it was created with instead of \<^verbatim>\<open>DD-MMM-YY\<close>.
\<close>

theorem lowercase_date_counterexample:
  "contains ''date'' (lower (py_str stub_lib (columns book1 ! 4)))
   \<and> \<not> contains ''issue'' (lower (py_str stub_lib (columns book1 ! 4)))
   \<and> \<not> contains ''maturity'' (lower (py_str stub_lib (columns book1 ! 4)))
   \<and> \<not> contains ''Interest'' (py_str stub_lib (columns book1 ! 4))
   \<and> \<not> contains ''Amount'' (py_str stub_lib (columns book1 ! 4))
   \<and> rows book1 ! 0 ! 4 = PDate 5
   \<and> ws_columns (render stub_lib book1) ! 4 ! Suc 0
       = \<lparr>cvalue = PDate 5, number_format = ''yyyy-mm-dd h:mm:ss''\<rparr>"
proof -
  have n: "0 < length (rows book1)" and j: "4 < length (columns book1)"
    by (simp_all add: book1_sizes)
  have t: "contains ''date'' ''trade date''" "\<not> contains ''issue'' ''trade date''"
    "\<not> contains ''maturity'' ''trade date''" "\<not> contains ''Interest'' ''Trade date''"
    "\<not> contains ''Amount'' ''Trade date''" "\<not> contains ''Date'' ''Trade date''"
    by (simp_all add: startswith_def)
  have "ws_columns (render stub_lib book1) ! 4 ! Suc 0 = new_cell (PDate 5)"
    using t by (simp add: rendered_cell[OF j n] Let_def book1_names book1_cells lower_examples)
  with t show ?thesis by (simp add: book1_names book1_cells lower_examples new_cell_def)
qed

subsection \<open>C7: column widths\<close>

lemma max_length_Max:
  "max_length L cs m =
     Max (insert m ((\<lambda>c. length (py_str L (cvalue c))) ` {c \<in> set cs. truthy (cvalue c)}))"
proof (induction cs arbitrary: m)
  case Nil
  then show ?case by simp
next
  case (Cons c cs)
  let ?len = "\<lambda>c. length (py_str L (cvalue c))"
  let ?S = "?len ` {c \<in> set cs. truthy (cvalue c)}"
  have fin: "finite ?S" by simp
  show ?case
  proof (cases "truthy (cvalue c)")
    case True
    then have S: "?len ` {x \<in> set (c # cs). truthy (cvalue x)} = insert (?len c) ?S" by auto
    have "Max (insert m (insert (?len c) ?S)) = Max (insert (max m (?len c)) ?S)"
    proof (cases "?S = {}")
      case True
      show ?thesis unfolding True by (simp add: max.commute)
    next
      case False
      have "Max (insert m (insert (?len c) ?S)) = max m (Max (insert (?len c) ?S))"
        by (rule Max_insert) (simp_all)
      also have "\<dots> = max m (max (?len c) (Max ?S))"
        using Max_insert[OF fin False] by simp
      also have "\<dots> = max (max m (?len c)) (Max ?S)" by (simp add: max.assoc)
      also have "\<dots> = Max (insert (max m (?len c)) ?S)"
        using Max_insert[OF fin False] by simp
      finally show ?thesis .
    qed
    moreover have "(if m < ?len c then ?len c else m) = max m (?len c)" by (simp add: max_def)
    ultimately show ?thesis using True Cons.IH[of "max m (?len c)"] S by simp
  next
    case False
    then have "?len ` {x \<in> set (c # cs). truthy (cvalue x)} = ?S" by auto
    with False Cons.IH[of m] show ?thesis by simp
  qed
qed

lemma book1_last_column:
  "ws_columns (render stub_lib book1) ! 5
     = [\<lparr>cvalue = PStr ''OK'', number_format = ''General''\<rparr>,
        \<lparr>cvalue = PBool False, number_format = ''General''\<rparr>]"
proof -
  have j: "5 < length (columns book1)" by (simp add: book1_sizes)
  have t: "\<not> contains ''Interest'' ''OK''" "\<not> contains ''Amount'' ''OK''"
    "\<not> contains ''Date'' ''OK''" "\<not> contains ''issue date'' ''ok''"
    "\<not> contains ''maturity date'' ''ok''" "\<not> contains ''issue'' ''ok''"
    "\<not> contains ''maturity'' ''ok''"
    by (simp_all add: startswith_def)
  show ?thesis
    unfolding ws_columns_nth[OF j]
    using t
    by (simp add: format_column_def Let_def book1_names lower_examples)
      (simp add: book1_def new_cell_def)
qed

text \<open>
  C7, as amended. The width assigned to a column of the worksheet is \<open>min (m + 2) 50\<close>,
  where \<open>m\<close> is the greatest length of the text of a value among those cells of the
  column, header included, whose value is truthy in Python (not \<^verbatim>\<open>None\<close>, not zero, not
  \<^verbatim>\<open>False\<close>, not the empty string), and 0 when there is no such cell.
\<close>

theorem column_width:
  assumes "j < length (columns df)"
  shows "column_widths (render L df) ! j =
     min (Max (set (0 # map (\<lambda>c. length (py_str L (cvalue c)))
                        (filter (\<lambda>c. truthy (cvalue c)) (ws_columns (render L df) ! j)))) + 2) 50"
proof -
  have "set (filter (\<lambda>c. truthy (cvalue c)) (ws_columns (render L df) ! j))
      = {c \<in> set (ws_columns (render L df) ! j). truthy (cvalue c)}" by auto
  then show ?thesis
    by (simp add: column_widths_nth[OF assms] adjusted_width_def max_length_Max del: set_filter)
qed

text \<open>In \<open>book1\<close> the column \<^verbatim>\<open>OK\<close> holds \<^verbatim>\<open>False\<close>: only the header counts.\<close>

theorem column_width_witness:
  "5 < length (columns book1) \<and> column_widths (render stub_lib book1) ! 5 = 4"
proof -
  have j: "5 < length (columns book1)" by (simp add: book1_sizes)
  from column_width[OF j, of stub_lib]
  have "column_widths (render stub_lib book1) ! 5 = 4"
    by (simp add: book1_last_column truthy_def py_str_def)
  with j show ?thesis by simp
qed

text \<open>
  C7 as stated fails on that column: the longest text of a cell is \<^verbatim>\<open>False\<close>, of length
  5, so the stated width is 7, and the assigned width is 4.
\<close>

theorem column_width_counterexample:
  "column_widths (render stub_lib book1) ! 5 = 4
   \<and> min (Max (set (map (\<lambda>c. length (py_str stub_lib (cvalue c)))
                      (ws_columns (render stub_lib book1) ! 5))) + 2) 50 = 7"
proof -
  have j: "5 < length (columns book1)" by (simp add: book1_sizes)
  have "column_widths (render stub_lib book1) ! 5 = 4"
    by (simp add: column_widths_nth[OF j] book1_last_column adjusted_width_def truthy_def py_str_def)
  moreover have "min (Max (set (map (\<lambda>c. length (py_str stub_lib (cvalue c)))
                      (ws_columns (render stub_lib book1) ! 5))) + 2) 50 = 7"
    by (simp add: book1_last_column py_str_def)
  ultimately show ?thesis by simp
qed


subsection \<open>C5: no matching rows\<close>

lemma filtered_columns:
  "filtered L sel df = Inr f \<Longrightarrow>
     columns f = columns df \<and> has_column ''Name'' df \<and> has_column ''Units'' df"
  by (auto simp: filtered_def getitem_def Let_def has_column_get_loc split: option.splits sum.splits)

lemma filtered_total:
  "has_column ''Name'' df \<Longrightarrow> has_column ''Units'' df \<Longrightarrow> \<exists>f. filtered L sel df = Inr f"
  by (auto simp: filtered_def getitem_def Let_def has_column_get_loc)

lemma filtered_not_empty:
  assumes "filtered L sel df = Inr f"
  shows "df_empty f = (rows f = [])"
proof -
  from filtered_columns[OF assms] have "columns f \<noteq> []" by (auto simp: has_column_def)
  then show ?thesis by (simp add: df_empty_def)
qed

lemma process_sheet_no_rows:
  "filtered L sel df = Inr f \<Longrightarrow> rows f = [] \<Longrightarrow> process_sheet L lookup sel df = Inr None"
  by (simp add: process_sheet_def df_empty_def)

lemma process_sheet_Some:
  assumes "process_sheet L lookup sel df = Inr (Some h)"
  shows "\<exists>f. filtered L sel df = Inr f \<and> rows f \<noteq> []"
  using assms by (auto simp: process_sheet_def df_empty_def split: sum.splits if_splits)

lemma combined_rows_none:
  "list_all (\<lambda>df. \<exists>f. filtered L sel df = Inr f \<and> rows f = []) sheets \<Longrightarrow>
     combined_rows L lookup sel sheets = Inr []"
  by (induction sheets) (auto simp: process_sheet_no_rows)

lemma combined_rows_some:
  "combined_rows L lookup sel sheets = Inr fs \<Longrightarrow> fs \<noteq> [] \<Longrightarrow>
     list_ex (\<lambda>df. \<exists>f. filtered L sel df = Inr f \<and> rows f \<noteq> []) sheets"
proof (induction sheets arbitrary: fs)
  case Nil
  then show ?case by simp
next
  case (Cons df dfs)
  from Cons.prems(1) obtain r gs where r: "process_sheet L lookup sel df = Inr r"
    and gs: "combined_rows L lookup sel dfs = Inr gs"
    and fs: "fs = (case r of None \<Rightarrow> gs | Some f \<Rightarrow> f # gs)"
    by (auto split: sum.splits)
  show ?case
  proof (cases r)
    case None
    with fs Cons.prems(2) have "gs \<noteq> []" by simp
    from Cons.IH[OF gs this] show ?thesis by simp
  next
    case (Some h)
    with r process_sheet_Some[of L lookup sel df h] show ?thesis by simp
  qed
qed

lemma all_names_ok:
  "list_all (has_column ''Name'') sheets \<Longrightarrow> \<exists>ns. all_names L sheets = Inr ns"
  by (simp add: all_names_def update_names_eq)

lemma sheet1_Z: "filtered stub_lib [''Z''] sheet1 = Inr (sheet1\<lparr>rows := []\<rparr>)"
  by code_simp

lemma sheet1_none: "filtered stub_lib [] sheet1 = Inr (sheet1\<lparr>rows := []\<rparr>)"
  by code_simp

lemma sheet1_names: "all_names stub_lib [sheet1] = Inr [''A'', ''B'']"
  by code_simp

lemma sheet1_A:
  "combined_rows stub_lib None [''A''] [sheet1]
     = Inr [\<lparr>columns = [PStr ''Name'', PStr ''Units'', PStr ''NBFC'', PStr ''ISIN''],
             rows = [[PStr ''A'', PInt 2, PStr ''X'', PStr []]]\<rparr>]"
  by code_simp

text \<open>
  C5, as amended. When at least one name is selected and the filter of every sheet returns
  no row, the run ends with the notice of \<^verbatim>\<open>st.info\<close> and offers no download. A run that
  offers the download had a name selected and a sheet whose filter returned a row. When no
  name is selected, the run shows neither the notice nor the download: it shows nothing
  after the widgets, provided every sheet has a \<^verbatim>\<open>Name\<close> column (else the name collection
  has raised).
\<close>

theorem run_no_match:
  "(selected_names \<noteq> []
      \<and> list_all (\<lambda>df. \<exists>f. filtered L selected_names df = Inr f \<and> rows f = []) sheets
     \<longrightarrow> run L sheets lookup_file selected_names
           = Inr (Info ''No matching rows found with positive Units.''))
   \<and> (\<forall>ws. run L sheets lookup_file selected_names = Inr (Download ws)
     \<longrightarrow> selected_names \<noteq> []
         \<and> list_ex (\<lambda>df. \<exists>f. filtered L selected_names df = Inr f \<and> rows f \<noteq> []) sheets)
   \<and> (selected_names = []
     \<longrightarrow> (\<forall>msg. run L sheets lookup_file selected_names \<noteq> Inr (Info msg))
         \<and> (\<forall>ws. run L sheets lookup_file selected_names \<noteq> Inr (Download ws))
         \<and> (list_all (has_column ''Name'') sheets
              \<longrightarrow> run L sheets lookup_file selected_names = Inr Idle))"
proof -
  have notice: "run L sheets lookup_file selected_names
           = Inr (Info ''No matching rows found with positive Units.'')"
    if h: "selected_names \<noteq> []
      \<and> list_all (\<lambda>df. \<exists>f. filtered L selected_names df = Inr f \<and> rows f = []) sheets"
  proof -
    from h have "list_all (has_column ''Name'') sheets"
      by (auto simp: list_all_iff dest: filtered_columns)
    from all_names_ok[OF this] obtain ns where "all_names L sheets = Inr ns" by blast
    with h combined_rows_none[of L selected_names sheets "map_option (lookup_df L) lookup_file"]
    show ?thesis by (simp add: run_def)
  qed
  have download: "selected_names \<noteq> []
         \<and> list_ex (\<lambda>df. \<exists>f. filtered L selected_names df = Inr f \<and> rows f \<noteq> []) sheets"
    if d: "run L sheets lookup_file selected_names = Inr (Download ws)" for ws
  proof -
    from d have sel: "selected_names \<noteq> []"
      by (auto simp: run_def Let_def split: sum.splits if_splits)
    from d obtain f fs where
      "combined_rows L (map_option (lookup_df L) lookup_file) selected_names sheets = Inr (f # fs)"
      by (auto simp: run_def Let_def split: sum.splits if_splits list.splits)
    from combined_rows_some[OF this] sel show ?thesis by simp
  qed
  have idle: "(\<forall>msg. run L sheets lookup_file selected_names \<noteq> Inr (Info msg))
         \<and> (\<forall>ws. run L sheets lookup_file selected_names \<noteq> Inr (Download ws))
         \<and> (list_all (has_column ''Name'') sheets
              \<longrightarrow> run L sheets lookup_file selected_names = Inr Idle)"
    if e: "selected_names = []"
  proof (intro conjI allI impI)
    fix msg show "run L sheets lookup_file selected_names \<noteq> Inr (Info msg)"
      using e by (simp add: run_def split: sum.splits)
  next
    fix ws show "run L sheets lookup_file selected_names \<noteq> Inr (Download ws)"
      using e by (simp add: run_def split: sum.splits)
  next
    assume "list_all (has_column ''Name'') sheets"
    from all_names_ok[OF this] obtain ns where "all_names L sheets = Inr ns" by blast
    with e show "run L sheets lookup_file selected_names = Inr Idle" by (simp add: run_def)
  qed
  from notice download idle show ?thesis by blast
qed

text \<open>
  On \<open>sheet1\<close>: the selection \<^verbatim>\<open>Z\<close> matches nothing and gives the notice; the selection
  \<^verbatim>\<open>A\<close> gives the download, and the filter of \<open>sheet1\<close> returns a row; the empty selection
  gives nothing.
\<close>

theorem run_no_match_witness:
  "run stub_lib [sheet1] None [''Z''] = Inr (Info ''No matching rows found with positive Units.'')
   \<and> run stub_lib [sheet1] None [''A'']
       = Inr (Download (render stub_lib (final_df stub_lib [sheet1] None
           [\<lparr>columns = [PStr ''Name'', PStr ''Units'', PStr ''NBFC'', PStr ''ISIN''],
             rows = [[PStr ''A'', PInt 2, PStr ''X'', PStr []]]\<rparr>])))
   \<and> list_ex (\<lambda>df. \<exists>f. filtered stub_lib [''A''] df = Inr f \<and> rows f \<noteq> []) [sheet1]
   \<and> list_all (has_column ''Name'') [sheet1]
   \<and> run stub_lib [sheet1] None [] = Inr Idle"
proof -
  have a: "run stub_lib [sheet1] None [''Z''] = Inr (Info ''No matching rows found with positive Units.'')"
    using run_no_match[of "[''Z'']" stub_lib "[sheet1]" None] sheet1_Z by simp
  have b: "run stub_lib [sheet1] None [''A'']
       = Inr (Download (render stub_lib (final_df stub_lib [sheet1] None
           [\<lparr>columns = [PStr ''Name'', PStr ''Units'', PStr ''NBFC'', PStr ''ISIN''],
             rows = [[PStr ''A'', PInt 2, PStr ''X'', PStr []]]\<rparr>])))"
    by (simp add: run_def sheet1_names sheet1_A del: combined_rows.simps)
  from run_no_match[of "[''A'']" stub_lib "[sheet1]" None] b
  have c: "list_ex (\<lambda>df. \<exists>f. filtered stub_lib [''A''] df = Inr f \<and> rows f \<noteq> []) [sheet1]"
    by blast
  have n: "list_all (has_column ''Name'') [sheet1]" by (simp add: has_column_def sheet1_def)
  from run_no_match[of "[]" stub_lib "[sheet1]" None] n
  have d: "run stub_lib [sheet1] None [] = Inr Idle" by blast
  from a b c n d show ?thesis by blast
qed

text \<open>
  C5 as stated fails: with nothing selected the filter returns no row of \<open>sheet1\<close>, and the
  run shows neither the notice nor the download (line 41 skips both).
\<close>

theorem empty_selection_counterexample:
  "filtered stub_lib [] sheet1 = Inr (sheet1\<lparr>rows := []\<rparr>)
   \<and> run stub_lib [sheet1] None [] = Inr Idle"
  using sheet1_none by (simp add: run_def sheet1_names)


subsection \<open>C10: no lookup file\<close>

lemma set_select: "set (select keep xs) \<subseteq> set xs"
  unfolding select_def by (auto dest: set_zip_leftD)

lemma drop_columns_subset: "set (columns (drop_columns labels f)) \<subseteq> set (columns f)"
  by (simp add: drop_columns_def Let_def set_select)

text \<open>Without a lookup table a sheet with matching rows gives its filtered, pruned frame,
  with the blank column after \<^verbatim>\<open>NBFC\<close> when there is one.\<close>

lemma process_sheet_no_lookup:
  assumes f: "filtered L sel df = Inr f" and r: "rows f \<noteq> []"
    and g: "g = drop_columns (cols_to_drop f) f"
    and isin: "has_column ''NBFC'' df \<longrightarrow> \<not> has_column ''ISIN'' df"
  shows "\<exists>h. process_sheet L None sel df = Inr (Some h)
     \<and> (case get_loc (PStr ''NBFC'') (columns g) of
           None \<Rightarrow> h = g
         | Some k \<Rightarrow>
             columns h = take (Suc k) (columns g) @ PStr ''ISIN'' # drop (Suc k) (columns g)
             \<and> rows h = map (\<lambda>r. take (Suc k) r @ PStr [] # drop (Suc k) r) (rows g))"
proof -
  have ne: "\<not> df_empty f" using filtered_not_empty[OF f] r by simp
  have cf: "columns f = columns df" using filtered_columns[OF f] by simp
  show ?thesis
  proof (cases "get_loc (PStr ''NBFC'') (columns g)")
    case None
    with f ne g show ?thesis
      by (simp add: process_sheet_def insert_isin_def enrich_def)
  next
    case (Some k)
    then have "PStr ''NBFC'' \<in> set (columns g)" using get_loc_None_iff[of "PStr ''NBFC''" "columns g"] by auto
    with drop_columns_subset[of "cols_to_drop f" f] g cf have "has_column ''NBFC'' df"
      by (auto simp: has_column_def)
    with isin have "\<not> has_column ''ISIN'' df" by simp
    with drop_columns_subset[of "cols_to_drop f" f] g cf have "\<not> has_column ''ISIN'' g"
      by (auto simp: has_column_def)
    with f ne g Some show ?thesis
      by (simp add: process_sheet_def insert_isin_def enrich_def df_insert_def insert_at_def)
  qed
qed

lemma combined_rows_no_lookup:
  assumes "list_all (\<lambda>df. has_column ''Name'' df \<and> has_column ''Units'' df
              \<and> (has_column ''NBFC'' df \<longrightarrow> \<not> has_column ''ISIN'' df)) sheets"
  shows "\<exists>fs. combined_rows L None sel sheets = Inr fs
     \<and> list_all2
         (\<lambda>h df. \<exists>f g. filtered L sel df = Inr f \<and> g = drop_columns (cols_to_drop f) f
            \<and> (case get_loc (PStr ''NBFC'') (columns g) of
                  None \<Rightarrow> h = g
                | Some k \<Rightarrow>
                    columns h = take (Suc k) (columns g) @ PStr ''ISIN'' # drop (Suc k) (columns g)
                    \<and> rows h = map (\<lambda>r. take (Suc k) r @ PStr [] # drop (Suc k) r) (rows g)))
         fs (filter (\<lambda>df. \<exists>f. filtered L sel df = Inr f \<and> rows f \<noteq> []) sheets)"
  using assms
proof (induction sheets)
  case Nil
  then show ?case by simp
next
  case (Cons df dfs)
  from Cons.prems have hd: "has_column ''Name'' df" "has_column ''Units'' df"
    "has_column ''NBFC'' df \<longrightarrow> \<not> has_column ''ISIN'' df"
    and tl: "list_all (\<lambda>df. has_column ''Name'' df \<and> has_column ''Units'' df
              \<and> (has_column ''NBFC'' df \<longrightarrow> \<not> has_column ''ISIN'' df)) dfs"
    by simp_all
  from Cons.IH[OF tl] obtain gs where gs: "combined_rows L None sel dfs = Inr gs"
    and rel: "list_all2
         (\<lambda>h df. \<exists>f g. filtered L sel df = Inr f \<and> g = drop_columns (cols_to_drop f) f
            \<and> (case get_loc (PStr ''NBFC'') (columns g) of
                  None \<Rightarrow> h = g
                | Some k \<Rightarrow>
                    columns h = take (Suc k) (columns g) @ PStr ''ISIN'' # drop (Suc k) (columns g)
                    \<and> rows h = map (\<lambda>r. take (Suc k) r @ PStr [] # drop (Suc k) r) (rows g)))
         gs (filter (\<lambda>df. \<exists>f. filtered L sel df = Inr f \<and> rows f \<noteq> []) dfs)"
    by blast
  from filtered_total[OF hd(1,2), of L sel] obtain f where f: "filtered L sel df = Inr f" by blast
  show ?case
  proof (cases "rows f = []")
    case True
    with f gs rel process_sheet_no_rows[OF f True, of None] show ?thesis by simp
  next
    case False
    from process_sheet_no_lookup[OF f False refl hd(3)] obtain h where
      h: "process_sheet L None sel df = Inr (Some h)"
      and sh: "(case get_loc (PStr ''NBFC'') (columns (drop_columns (cols_to_drop f) f)) of
           None \<Rightarrow> h = drop_columns (cols_to_drop f) f
         | Some k \<Rightarrow>
             columns h = take (Suc k) (columns (drop_columns (cols_to_drop f) f)) @ PStr ''ISIN''
                 # drop (Suc k) (columns (drop_columns (cols_to_drop f) f))
             \<and> rows h = map (\<lambda>r. take (Suc k) r @ PStr [] # drop (Suc k) r)
                 (rows (drop_columns (cols_to_drop f) f)))"
      by blast
    from f False h sh gs rel show ?thesis by simp
  qed
qed

lemma sheet1_Z_run: "run stub_lib [sheet1] None [''Z''] = Inr (Info ''No matching rows found with positive Units.'')"
  using sheet1_Z by (simp add: run_def sheet1_names process_sheet_no_rows)

lemma sheet4_names: "all_names stub_lib [sheet4] = Inr [''A'']"
  by code_simp

lemma sheet4_A: "combined_rows stub_lib None [''A''] [sheet4] = Inl (ValueError ''cannot insert ISIN, already exists'')"
  by code_simp

lemma sheet1_A_filtered: "filtered stub_lib [''A''] sheet1 = Inr (sheet1\<lparr>rows := [[PStr ''A'', PInt 2, PStr ''X'']]\<rparr>)"
  by code_simp

lemma sheet1_cols: "has_column ''Name'' sheet1 \<and> has_column ''Units'' sheet1 \<and> \<not> has_column ''ISIN'' sheet1"
  by (simp add: has_column_def sheet1_def)

text \<open>
  C10, as amended. Suppose no lookup file is given, at least one name is selected, every
  sheet has a \<^verbatim>\<open>Name\<close> and a \<^verbatim>\<open>Units\<close> column, and no sheet has both an \<^verbatim>\<open>NBFC\<close> and an
  \<^verbatim>\<open>ISIN\<close> column. Then the run raises nothing. The loop over the sheets collects one
  frame per sheet with matching rows, in sheet order. Each of these frames is the filtered
  sheet without its blank and unnamed columns, unchanged when it has no \<^verbatim>\<open>NBFC\<close> column,
  and otherwise with the label \<^verbatim>\<open>ISIN\<close> inserted right after \<^verbatim>\<open>NBFC\<close> and the empty
  string inserted at that position of every row: no other cell is touched, the date
  columns included. When the filter of some sheet returns a row, the run offers the
  download of the worksheet rendered from the concatenation of these frames; otherwise it
  ends with the notice.
\<close>

theorem run_without_lookup:
  assumes sel: "selected_names \<noteq> []"
    and cols: "list_all (\<lambda>df. has_column ''Name'' df \<and> has_column ''Units'' df
              \<and> (has_column ''NBFC'' df \<longrightarrow> \<not> has_column ''ISIN'' df)) sheets"
  shows "\<exists>fs. combined_rows L None selected_names sheets = Inr fs
     \<and> list_all2
         (\<lambda>h df. \<exists>f g. filtered L selected_names df = Inr f
            \<and> g = drop_columns (cols_to_drop f) f
            \<and> (case get_loc (PStr ''NBFC'') (columns g) of
                  None \<Rightarrow> h = g
                | Some k \<Rightarrow>
                    columns h = take (Suc k) (columns g) @ PStr ''ISIN'' # drop (Suc k) (columns g)
                    \<and> rows h = map (\<lambda>r. take (Suc k) r @ PStr [] # drop (Suc k) r) (rows g)))
         fs (filter (\<lambda>df. \<exists>f. filtered L selected_names df = Inr f \<and> rows f \<noteq> []) sheets)
     \<and> run L sheets None selected_names =
         (if list_ex (\<lambda>df. \<exists>f. filtered L selected_names df = Inr f \<and> rows f \<noteq> []) sheets
          then Inr (Download (render L (final_df L sheets None fs)))
          else Inr (Info ''No matching rows found with positive Units.''))"
proof -
  from combined_rows_no_lookup[OF cols, of L selected_names] obtain fs where
    fs: "combined_rows L None selected_names sheets = Inr fs"
    and rel: "list_all2
         (\<lambda>h df. \<exists>f g. filtered L selected_names df = Inr f
            \<and> g = drop_columns (cols_to_drop f) f
            \<and> (case get_loc (PStr ''NBFC'') (columns g) of
                  None \<Rightarrow> h = g
                | Some k \<Rightarrow>
                    columns h = take (Suc k) (columns g) @ PStr ''ISIN'' # drop (Suc k) (columns g)
                    \<and> rows h = map (\<lambda>r. take (Suc k) r @ PStr [] # drop (Suc k) r) (rows g)))
         fs (filter (\<lambda>df. \<exists>f. filtered L selected_names df = Inr f \<and> rows f \<noteq> []) sheets)"
    by blast
  from cols have "list_all (has_column ''Name'') sheets" by (auto simp: list_all_iff)
  from all_names_ok[OF this, of L] obtain ns where ns: "all_names L sheets = Inr ns" by blast
  have "run L sheets None selected_names =
         (if list_ex (\<lambda>df. \<exists>f. filtered L selected_names df = Inr f \<and> rows f \<noteq> []) sheets
          then Inr (Download (render L (final_df L sheets None fs)))
          else Inr (Info ''No matching rows found with positive Units.''))"
  proof (cases "list_ex (\<lambda>df. \<exists>f. filtered L selected_names df = Inr f \<and> rows f \<noteq> []) sheets")
    case True
    then have "filter (\<lambda>df. \<exists>f. filtered L selected_names df = Inr f \<and> rows f \<noteq> []) sheets \<noteq> []"
      by (auto simp: list_ex_iff filter_empty_conv)
    with rel have "fs \<noteq> []" by auto
    then obtain f fs' where "fs = f # fs'" by (cases fs) auto
    with True sel fs ns show ?thesis by (simp add: run_def)
  next
    case False
    then have "filter (\<lambda>df. \<exists>f. filtered L selected_names df = Inr f \<and> rows f \<noteq> []) sheets = []"
      by (auto simp: list_ex_iff filter_empty_conv)
    with rel have "fs = []" by simp
    with False sel fs ns show ?thesis by (simp add: run_def)
  qed
  with fs rel show ?thesis by blast
qed

text \<open>
  On \<open>sheet1\<close> with \<^verbatim>\<open>A\<close> selected: the one matching row, with the blank \<^verbatim>\<open>ISIN\<close> after
  \<^verbatim>\<open>NBFC\<close>, and the download. With \<^verbatim>\<open>Z\<close> selected: no frame, and the notice.
\<close>

theorem run_without_lookup_witness:
  "combined_rows stub_lib None [''A''] [sheet1]
     = Inr [\<lparr>columns = [PStr ''Name'', PStr ''Units'', PStr ''NBFC'', PStr ''ISIN''],
             rows = [[PStr ''A'', PInt 2, PStr ''X'', PStr []]]\<rparr>]
   \<and> run stub_lib [sheet1] None [''A'']
     = Inr (Download (render stub_lib (final_df stub_lib [sheet1] None
         [\<lparr>columns = [PStr ''Name'', PStr ''Units'', PStr ''NBFC'', PStr ''ISIN''],
           rows = [[PStr ''A'', PInt 2, PStr ''X'', PStr []]]\<rparr>])))
   \<and> run stub_lib [sheet1] None [''Z'']
     = Inr (Info ''No matching rows found with positive Units.'')"
proof -
  have selA: "[''A''] \<noteq> ([] :: string list)" and selZ: "[''Z''] \<noteq> ([] :: string list)"
    by simp_all
  have cols: "list_all (\<lambda>df. has_column ''Name'' df \<and> has_column ''Units'' df
              \<and> (has_column ''NBFC'' df \<longrightarrow> \<not> has_column ''ISIN'' df)) [sheet1]"
    using sheet1_cols by simp
  have hit: "list_ex (\<lambda>df. \<exists>f. filtered stub_lib [''A''] df = Inr f \<and> rows f \<noteq> []) [sheet1]"
    by (simp add: sheet1_A_filtered)
  have miss: "\<not> list_ex (\<lambda>df. \<exists>f. filtered stub_lib [''Z''] df = Inr f \<and> rows f \<noteq> []) [sheet1]"
    by (simp add: sheet1_Z)
  from run_without_lookup[OF selA cols, of stub_lib] hit obtain fs where
    "combined_rows stub_lib None [''A''] [sheet1] = Inr fs"
    "run stub_lib [sheet1] None [''A'']
       = Inr (Download (render stub_lib (final_df stub_lib [sheet1] None fs)))"
    by auto
  with sheet1_A have a: "run stub_lib [sheet1] None [''A'']
     = Inr (Download (render stub_lib (final_df stub_lib [sheet1] None
         [\<lparr>columns = [PStr ''Name'', PStr ''Units'', PStr ''NBFC'', PStr ''ISIN''],
           rows = [[PStr ''A'', PInt 2, PStr ''X'', PStr []]]\<rparr>])))"
    by simp
  from run_without_lookup[OF selZ cols, of stub_lib] miss
  have z: "run stub_lib [sheet1] None [''Z'']
     = Inr (Info ''No matching rows found with positive Units.'')"
    by auto
  from sheet1_A a z show ?thesis by simp
qed

text \<open>
  C10 as stated fails: \<open>sheet4\<close> has an \<^verbatim>\<open>NBFC\<close> column and already an \<^verbatim>\<open>ISIN\<close> column,
  its row matches, and the insertion of line 59 raises ValueError, so the run does not
  complete. And on \<open>sheet1\<close> with a selection that matches no row the run completes with
  the notice, not with a workbook.
\<close>

theorem existing_isin_counterexample:
  "has_column ''NBFC'' sheet4
   \<and> filtered stub_lib [''A''] sheet4 = Inr sheet4
   \<and> run stub_lib [sheet4] None [''A''] = Inl (ValueError ''cannot insert ISIN, already exists'')
   \<and> run stub_lib [sheet1] None [''Z''] = Inr (Info ''No matching rows found with positive Units.'')"
proof -
  have "has_column ''NBFC'' sheet4" by (simp add: has_column_def sheet4_def)
  moreover have "filtered stub_lib [''A''] sheet4 = Inr sheet4" by code_simp
  moreover have "run stub_lib [sheet4] None [''A''] = Inl (ValueError ''cannot insert ISIN, already exists'')"
    by (simp add: run_def sheet4_names sheet4_A del: combined_rows.simps)
  ultimately show ?thesis using sheet1_Z_run by simp
qed

end
